theory Spec2Isabelle
  imports Complex_Main
begin

section \<open>Values\<close>

text \<open>
  The values that travel through the client: what \<^verbatim>\<open>json.loads\<close> produces and what
  the client stores. Python's \<^verbatim>\<open>None\<close> is \<open>JNull\<close>. A dictionary is an association
  list read with \<open>map_of\<close>. No operation of the client computes with a decoded number;
  a float is a rational or one of the three values \<^verbatim>\<open>NaN\<close>, \<^verbatim>\<open>Infinity\<close> and
  \<^verbatim>\<open>-Infinity\<close> that the decoder also accepts.
\<close>

datatype pyfloat = Finite rat | NaN | PosInfinity | NegInfinity

datatype json =
    JNull
  | JBool bool
  | JNum int
  | JFloat pyfloat
  | JStr string
  | JArr "json list"
  | JObj "(string \<times> json) list"

section \<open>Datapoint (client.py, lines 10-44)\<close>

text \<open>
  \<^verbatim>\<open>Datapoint\<close> is a dict with the keys \<^verbatim>\<open>metricValue\<close>, \<^verbatim>\<open>metricName\<close>,
  \<^verbatim>\<open>collectionTime\<close>, \<^verbatim>\<open>ttlInSeconds\<close> and, when given and non-empty, \<^verbatim>\<open>unit\<close>.
\<close>

record datapoint =
  metricValue :: json
  metricName :: string
  collectionTime :: int
  ttlInSeconds :: int
  unit :: "string option"

text \<open>
  \<^verbatim>\<open>Datapoint.__init__(name, value, collection_time=None, ttl_seconds=None, unit=None)\<close>.
  The first argument \<open>now\<close> is what \<^verbatim>\<open>utils.time_in_ms()\<close> reads from the clock.
  \<^verbatim>\<open>if not ttl_seconds\<close> holds for \<^verbatim>\<open>None\<close> and for \<^verbatim>\<open>0\<close>; \<^verbatim>\<open>if unit\<close> fails
  for \<^verbatim>\<open>None\<close> and for the empty string.
\<close>

definition Datapoint_init ::
  "int \<Rightarrow> string \<Rightarrow> json \<Rightarrow> int option \<Rightarrow> int option \<Rightarrow> string option \<Rightarrow> datapoint" where
  "Datapoint_init now name val collection_time ttl_seconds unit_arg =
     (let collection_time1 = (case collection_time of None \<Rightarrow> now | Some t \<Rightarrow> t);
          ttl1 = (case ttl_seconds of
                    None \<Rightarrow> 60 * 60 * 24 * 180
                  | Some t \<Rightarrow> if t = 0 then 60 * 60 * 24 * 180 else t);
          ttl2 = max ttl1 0
      in \<lparr> metricValue = val,
           metricName = name,
           collectionTime = collection_time1,
           ttlInSeconds = ttl2,
           unit = (case unit_arg of
                     None \<Rightarrow> None
                   | Some u \<Rightarrow> if u \<noteq> [] then Some u else None) \<rparr>)"

section \<open>Exceptions and the operations of Python values\<close>

text \<open>
  \<open>ValueError\<close> stands for the class and its subclasses, which \<^verbatim>\<open>except ValueError\<close>
  catches alike; \<open>RuntimeError\<close> is what the interpreter raises when the recursion depth
  is exceeded.
\<close>

datatype exn =
    HTTPError int string
  | ValueError
  | RuntimeError
  | KeyError string
  | TypeError
  | AttributeError
  | RequestException string
  | Exception string

text \<open>\<^verbatim>\<open>v[k]\<close> for a string key: only a dict can be indexed by a string.\<close>

fun subscript :: "json \<Rightarrow> string \<Rightarrow> exn + json" where
  "subscript (JObj kvs) k =
     (case map_of kvs k of None \<Rightarrow> Inl (KeyError k) | Some x \<Rightarrow> Inr x)"
| "subscript _ k = Inl TypeError"

text \<open>\<^verbatim>\<open>v.get(k, d)\<close>: only a dict has the method.\<close>

fun py_get :: "json \<Rightarrow> string \<Rightarrow> json \<Rightarrow> exn + json" where
  "py_get (JObj kvs) k d = (case map_of kvs k of None \<Rightarrow> Inr d | Some x \<Rightarrow> Inr x)"
| "py_get _ k d = Inl AttributeError"

text \<open>
  \<^verbatim>\<open>for x in v\<close>: a list gives its elements, a dict its keys, a string its characters;
  nothing else is iterable.
\<close>

fun py_iter :: "json \<Rightarrow> exn + json list" where
  "py_iter (JArr xs) = Inr xs"
| "py_iter (JObj kvs) = Inr (map (\<lambda>kv. JStr (fst kv)) kvs)"
| "py_iter (JStr s) = Inr (map (\<lambda>c. JStr [c]) s)"
| "py_iter _ = Inl TypeError"

section \<open>The client object (client.py, lines 47-89)\<close>

text \<open>
  The attributes of a \<^verbatim>\<open>Blueflood\<close> object. \<^verbatim>\<open>_read_url\<close>, \<^verbatim>\<open>_ingest_url\<close> and
  \<^verbatim>\<open>_token\<close> are \<open>priv_read_url\<close>, \<open>priv_ingest_url\<close> and \<open>priv_token\<close>. The token
  and the two services hold whatever the identity response carried; \<open>JNull\<close> is
  \<^verbatim>\<open>None\<close>, the absent token or service.
\<close>

record blueflood =
  auth_url :: "string option"
  priv_read_url :: "string option"
  priv_ingest_url :: "string option"
  apikey :: "string option"
  username :: "string option"
  priv_token :: json
  read_service :: json
  ingest_service :: json
  region :: string

definition invalidate_token :: "blueflood \<Rightarrow> blueflood" where
  "invalidate_token c = c\<lparr>priv_token := JNull\<rparr>"

section \<open>Service catalog and endpoint resolution (client.py, lines 167-221)\<close>

definition ingest_name :: string where
  "ingest_name = ''cloudMetricsIngest''"

definition read_name :: string where
  "read_name = ''cloudMetrics''"

text \<open>
  The loop of \<^verbatim>\<open>update_catalog\<close>. \<^verbatim>\<open>s['name']\<close> raises on an entry that is not a
  dict or has no name; what earlier entries stored stays stored.
\<close>

fun update_catalog_loop :: "json list \<Rightarrow> blueflood \<Rightarrow> (exn + unit) \<times> blueflood" where
  "update_catalog_loop [] c = (Inr (), c)"
| "update_catalog_loop (s # ss) c =
     (case subscript s ''name'' of
        Inl e \<Rightarrow> (Inl e, c)
      | Inr n \<Rightarrow>
          if n = JStr ingest_name then update_catalog_loop ss (c\<lparr>ingest_service := s\<rparr>)
          else if n = JStr read_name then update_catalog_loop ss (c\<lparr>read_service := s\<rparr>)
          else update_catalog_loop ss c)"

definition update_catalog :: "json \<Rightarrow> blueflood \<Rightarrow> (exn + unit) \<times> blueflood" where
  "update_catalog service_catalog c =
     (case py_iter service_catalog of
        Inl e \<Rightarrow> (Inl e, c)
      | Inr ss \<Rightarrow> update_catalog_loop ss c)"

text \<open>
  The loop of \<^verbatim>\<open>url_for_region\<close>: the first endpoint whose region equals the requested
  one gives its \<^verbatim>\<open>publicURL\<close>; falling off the end of the loop returns \<^verbatim>\<open>None\<close>.
\<close>

fun url_for_region_loop :: "json list \<Rightarrow> string \<Rightarrow> exn + json" where
  "url_for_region_loop [] r = Inr JNull"
| "url_for_region_loop (e # es) r =
     (case py_get e ''region'' JNull of
        Inl x \<Rightarrow> Inl x
      | Inr rv \<Rightarrow>
          if JStr r = rv then subscript e ''publicURL''
          else url_for_region_loop es r)"

definition url_for_region :: "json \<Rightarrow> string \<Rightarrow> exn + json" where
  "url_for_region service r =
     (case py_get service ''endpoints'' (JArr []) of
        Inl x \<Rightarrow> Inl x
      | Inr eps \<Rightarrow>
          (case py_iter eps of
             Inl x \<Rightarrow> Inl x
           | Inr es \<Rightarrow> url_for_region_loop es r))"

definition read_url :: "blueflood \<Rightarrow> string \<Rightarrow> exn + json" where
  "read_url c r =
     (case priv_read_url c of
        Some u \<Rightarrow> Inr (JStr u)
      | None \<Rightarrow>
          if read_service c \<noteq> JNull then url_for_region (read_service c) r
          else Inl (Exception ''No read service found''))"

definition ingest_url :: "blueflood \<Rightarrow> string \<Rightarrow> exn + json" where
  "ingest_url c r =
     (case priv_ingest_url c of
        Some u \<Rightarrow> Inr (JStr u)
      | None \<Rightarrow>
          if ingest_service c \<noteq> JNull then url_for_region (ingest_service c) r
          else Inl (Exception ''No ingest service found''))"

section \<open>The HTTP transport\<close>

text \<open>
  What the \<^verbatim>\<open>requests\<close> library gives back: a status code and a body.
  \<^verbatim>\<open>raise_for_status\<close> is the library's: it raises \<^verbatim>\<open>HTTPError\<close> for a status
  from 400 to 599 and returns otherwise.
\<close>

record response =
  status_code :: int
  body :: string

definition raise_for_status :: "response \<Rightarrow> exn + unit" where
  "raise_for_status resp =
     (if 400 \<le> status_code resp \<and> status_code resp < 600
      then Inl (HTTPError (status_code resp) (body resp))
      else Inr ())"

text \<open>
  The keyword arguments of a data-plane call, and the calls the client makes: the POST of
  \<^verbatim>\<open>get_token\<close> to the identity endpoint (url, data, headers) and the call of
  \<^verbatim>\<open>request\<close> (method, url, keyword arguments). The docstring of \<^verbatim>\<open>request\<close> restricts
  the method to get, post, put and delete.
\<close>

record kwargs =
  kw_headers :: "string \<rightharpoonup> json"
  kw_params :: "(string \<times> json) list option"
  kw_data :: "string option"

datatype http_method = Get | Post | Put | Delete

datatype event =
    IdentityPost string string "string \<rightharpoonup> json"
  | DataSend http_method string kwargs

text \<open>
  The world outside the client: the library functions and the network. \<open>loads\<close> is the
  decoding of a body by \<^verbatim>\<open>resp.json()\<close>: the decoded value, or the exception raised
  (\<^verbatim>\<open>ValueError\<close> for a body that is not JSON, another exception such as the
  \<^verbatim>\<open>RuntimeError\<close> of a body nested deeper than the recursion limit). \<open>pformat\<close> is
  \<^verbatim>\<open>pprint.pformat\<close> on a decoded value, which can raise in the same way. \<open>dumps\<close> and
  \<open>urljoin\<close> are \<^verbatim>\<open>json.dumps\<close> and \<^verbatim>\<open>urljoin\<close>. The network answers a call given
  the calls made before it, with a response or an exception. The client's state is
  threaded together with the list of calls made so far.
\<close>

record env =
  loads :: "string \<Rightarrow> exn + json"
  pformat :: "json \<Rightarrow> exn + string"
  dumps :: "json \<Rightarrow> string"
  urljoin :: "string option \<Rightarrow> string \<Rightarrow> string"
  net :: "event list \<Rightarrow> event \<Rightarrow> exn + response"

type_synonym state = "blueflood \<times> event list"

definition base_headers :: "string \<rightharpoonup> json" where
  "base_headers =
     [''Accept'' \<mapsto> JStr ''application/json'',
      ''Content-Type'' \<mapsto> JStr ''application/json'']"

fun is_identity_post :: "event \<Rightarrow> bool" where
  "is_identity_post (IdentityPost _ _ _) = True"
| "is_identity_post (DataSend _ _ _) = False"

fun is_data_send :: "event \<Rightarrow> bool" where
  "is_data_send (IdentityPost _ _ _) = False"
| "is_data_send (DataSend _ _ _) = True"

definition identity_exchanges :: "event list \<Rightarrow> nat" where
  "identity_exchanges tr = length (filter is_identity_post tr)"

definition data_sends :: "event list \<Rightarrow> nat" where
  "data_sends tr = length (filter is_data_send tr)"

section \<open>Token acquisition (client.py, lines 132-165)\<close>

definition opt_str :: "string option \<Rightarrow> json" where
  "opt_str x = (case x of None \<Rightarrow> JNull | Some s \<Rightarrow> JStr s)"

definition credentials :: "blueflood \<Rightarrow> json" where
  "credentials c =
     JObj [(''auth'',
       JObj [(''RAX-KSKEY:apiKeyCredentials'',
         JObj [(''username'', opt_str (username c)), (''apiKey'', opt_str (apikey c))])])]"

definition identity_request :: "env \<Rightarrow> blueflood \<Rightarrow> event" where
  "identity_request env c =
     IdentityPost (urljoin env (auth_url c) ''tokens'') (dumps env (credentials c)) base_headers"

text \<open>\<^verbatim>\<open>resp_json['access']['token']['id']\<close> and \<^verbatim>\<open>resp_json['access']['serviceCatalog']\<close>.\<close>

definition token_id :: "json \<Rightarrow> exn + json" where
  "token_id resp_json =
     (case subscript resp_json ''access'' of
        Inl e \<Rightarrow> Inl e
      | Inr a \<Rightarrow>
          (case subscript a ''token'' of
             Inl e \<Rightarrow> Inl e
           | Inr t \<Rightarrow> subscript t ''id''))"

definition service_catalog_of :: "json \<Rightarrow> exn + json" where
  "service_catalog_of resp_json =
     (case subscript resp_json ''access'' of
        Inl e \<Rightarrow> Inl e
      | Inr a \<Rightarrow> subscript a ''serviceCatalog'')"

text \<open>
  The token is stored before the catalog is read, so an exception raised by the catalog
  leaves the new token in place.
\<close>

definition get_token :: "env \<Rightarrow> state \<Rightarrow> (exn + json) \<times> state" where
  "get_token env st =
     (case st of (c, tr) \<Rightarrow>
        if priv_token c \<noteq> JNull then (Inr (priv_token c), (c, tr))
        else
          let ev = identity_request env c; tr1 = tr @ [ev] in
          (case net env tr ev of
             Inl e \<Rightarrow> (Inl e, (c, tr1))
           | Inr resp \<Rightarrow>
               (case raise_for_status resp of
                  Inl e \<Rightarrow> (Inl e, (c, tr1))
                | Inr _ \<Rightarrow>
                    (case loads env (body resp) of
                       Inl e \<Rightarrow> (Inl e, (c, tr1))
                     | Inr resp_json \<Rightarrow>
                         (case token_id resp_json of
                            Inl e \<Rightarrow> (Inl e, (c, tr1))
                          | Inr tid \<Rightarrow>
                              let c1 = c\<lparr>priv_token := tid\<rparr> in
                              (case service_catalog_of resp_json of
                                 Inl e \<Rightarrow> (Inl e, (c1, tr1))
                               | Inr cat \<Rightarrow>
                                   (case update_catalog cat c1 of
                                      (Inl e, c2) \<Rightarrow> (Inl e, (c2, tr1))
                                    | (Inr _, c2) \<Rightarrow> (Inr (priv_token c2), (c2, tr1)))))))))"

section \<open>Construction (client.py, lines 68-89)\<close>

text \<open>
  \<^verbatim>\<open>Blueflood.__init__(auth_url, apikey, username, region, ingest_url, read_url)\<close>: the
  attributes are set and \<^verbatim>\<open>get_token\<close> is called. When it raises there is no object.
\<close>

definition new_client ::
  "string option \<Rightarrow> string option \<Rightarrow> string option \<Rightarrow> string \<Rightarrow>
   string option \<Rightarrow> string option \<Rightarrow> blueflood" where
  "new_client auth_url_arg apikey_arg username_arg region_arg ingest_url_arg read_url_arg =
     \<lparr> auth_url = auth_url_arg,
       priv_read_url = read_url_arg,
       priv_ingest_url = ingest_url_arg,
       apikey = apikey_arg,
       username = username_arg,
       priv_token = JNull,
       read_service = JNull,
       ingest_service = JNull,
       region = region_arg \<rparr>"

definition Blueflood_init ::
  "env \<Rightarrow> string option \<Rightarrow> string option \<Rightarrow> string option \<Rightarrow> string \<Rightarrow>
   string option \<Rightarrow> string option \<Rightarrow> event list \<Rightarrow> (exn + blueflood) \<times> event list" where
  "Blueflood_init env auth_url_arg apikey_arg username_arg region_arg ingest_url_arg
       read_url_arg tr =
     (case get_token env
             (new_client auth_url_arg apikey_arg username_arg region_arg ingest_url_arg
                read_url_arg, tr) of
        (Inl e, (c, tr1)) \<Rightarrow> (Inl e, tr1)
      | (Inr _, (c, tr1)) \<Rightarrow> (Inr c, tr1))"

section \<open>request (client.py, lines 223-273)\<close>

text \<open>
  The keyword arguments of the first call: the base headers, then the token, then the
  caller's headers over them; the data serialised. The caller's arguments are values that
  \<^verbatim>\<open>json.dumps\<close> and the debug messages of lines 255-259 accept.
\<close>

definition request_kwargs ::
  "env \<Rightarrow> json \<Rightarrow> json option \<Rightarrow> (string \<rightharpoonup> json) option \<Rightarrow>
   (string \<times> json) list option \<Rightarrow> kwargs" where
  "request_kwargs env tok data headers params =
     (let hdrs0 = base_headers(''X-Auth-Token'' \<mapsto> tok) in
      \<lparr> kw_headers = (case headers of None \<Rightarrow> hdrs0 | Some h \<Rightarrow> hdrs0 ++ h),
        kw_params = params,
        kw_data = map_option (dumps env) data \<rparr>)"

definition send :: "env \<Rightarrow> http_method \<Rightarrow> string \<Rightarrow> kwargs \<Rightarrow> event list \<Rightarrow>
    (exn + response) \<times> event list" where
  "send env method url kw tr =
     (net env tr (DataSend method url kw), tr @ [DataSend method url kw])"

text \<open>
  Lines 267-273: the status check, then inside the \<^verbatim>\<open>try\<close> the decoding of the body
  and the formatting of the decoded value for the debug message. \<^verbatim>\<open>except ValueError\<close>
  turns a \<^verbatim>\<open>ValueError\<close> of either into the implicit \<^verbatim>\<open>None\<close>; any other exception
  leaves the function.
\<close>

definition decode_response :: "env \<Rightarrow> response \<Rightarrow> exn + json" where
  "decode_response env resp =
     (case raise_for_status resp of
        Inl e \<Rightarrow> Inl e
      | Inr _ \<Rightarrow>
          (case loads env (body resp) of
             Inl e \<Rightarrow> if e = ValueError then Inr JNull else Inl e
           | Inr resp_json \<Rightarrow>
               (case pformat env resp_json of
                  Inl e \<Rightarrow> if e = ValueError then Inr JNull else Inl e
                | Inr _ \<Rightarrow> Inr resp_json)))"

definition request ::
  "env \<Rightarrow> string \<Rightarrow> http_method \<Rightarrow> json option \<Rightarrow> (string \<rightharpoonup> json) option \<Rightarrow>
   (string \<times> json) list option \<Rightarrow> state \<Rightarrow> (exn + json) \<times> state" where
  "request env url method data headers params st =
     (case get_token env st of
        (Inl e, st1) \<Rightarrow> (Inl e, st1)
      | (Inr tok, (c1, tr1)) \<Rightarrow>
          let kw = request_kwargs env tok data headers params in
          (case send env method url kw tr1 of
             (Inl e, tr2) \<Rightarrow> (Inl e, (c1, tr2))
           | (Inr resp, tr2) \<Rightarrow>
               if status_code resp = 401 then
                 (case get_token env (invalidate_token c1, tr2) of
                    (Inl e, st3) \<Rightarrow> (Inl e, st3)
                  | (Inr tok2, (c3, tr3)) \<Rightarrow>
                      let kw2 = kw\<lparr>kw_headers := (kw_headers kw)(''X-Auth-Token'' \<mapsto> tok2)\<rparr> in
                      (case send env method url kw2 tr3 of
                         (Inl e, tr4) \<Rightarrow> (Inl e, (c3, tr4))
                       | (Inr resp2, tr4) \<Rightarrow> (decode_response env resp2, (c3, tr4))))
               else (decode_response env resp, (c1, tr2))))"

section \<open>Two servers\<close>

text \<open>
  Concrete worlds on which the theorems below are run. The identity endpoint answers its
  first POST with token \<open>T1\<close> and a catalog holding a \<^verbatim>\<open>cloudMetrics\<close> entry for region
  IAD, and every later POST with token \<open>T2\<close> and an empty catalog. The first server
  answers every data-plane call with 401. The second one rejects token \<open>T1\<close> with 401 and
  accepts any other token: with an empty body on the url \<^verbatim>\<open>http://iad/ingest\<close>, with a
  body of 1001 opening brackets on the url \<^verbatim>\<open>http://iad/deep\<close>, with the body
  \<^verbatim>\<open>[]\<close> elsewhere. All answers of the second server have status 200. The decoder
  knows the three bodies it is given, runs out of recursion depth on more than 1000
  opening brackets, and rejects everything else.
\<close>

definition example_read_entry :: json where
  "example_read_entry =
     JObj [(''name'', JStr ''cloudMetrics''),
           (''endpoints'',
              JArr [JObj [(''region'', JStr ''IAD''), (''publicURL'', JStr ''http://iad'')]])]"

definition first_identity_body :: json where
  "first_identity_body =
     JObj [(''access'',
       JObj [(''token'', JObj [(''id'', JStr ''T1'')]),
             (''serviceCatalog'', JArr [example_read_entry])])]"

definition second_identity_body :: json where
  "second_identity_body =
     JObj [(''access'',
       JObj [(''token'', JObj [(''id'', JStr ''T2'')]),
             (''serviceCatalog'', JArr [])])]"

definition example_loads :: "string \<Rightarrow> exn + json" where
  "example_loads s =
     (if 1000 < length s \<and> set s \<subseteq> {CHR ''[''} then Inl RuntimeError
      else if s = ''first'' then Inr first_identity_body
      else if s = ''second'' then Inr second_identity_body
      else if s = ''[]'' then Inr (JArr [])
      else Inl ValueError)"

definition example_identity :: "event list \<Rightarrow> response" where
  "example_identity tr =
     \<lparr> status_code = 200,
       body = (if identity_exchanges tr = 0 then ''first'' else ''second'') \<rparr>"

definition always_401_env :: env where
  "always_401_env =
     \<lparr> loads = example_loads,
       pformat = (\<lambda>j. Inr ''value''),
       dumps = (\<lambda>j. ''data''),
       urljoin = (\<lambda>b u. case b of None \<Rightarrow> u | Some x \<Rightarrow> x @ u),
       net = (\<lambda>tr ev. case ev of
                IdentityPost _ _ _ \<Rightarrow> Inr (example_identity tr)
              | DataSend _ _ _ \<Rightarrow> Inr \<lparr> status_code = 401, body = [] \<rparr>) \<rparr>"

definition expiring_token_env :: env where
  "expiring_token_env =
     \<lparr> loads = example_loads,
       pformat = (\<lambda>j. Inr ''value''),
       dumps = (\<lambda>j. ''data''),
       urljoin = (\<lambda>b u. case b of None \<Rightarrow> u | Some x \<Rightarrow> x @ u),
       net = (\<lambda>tr ev. case ev of
                IdentityPost _ _ _ \<Rightarrow> Inr (example_identity tr)
              | DataSend m u kw \<Rightarrow>
                  if kw_headers kw ''X-Auth-Token'' = Some (JStr ''T1'')
                  then Inr \<lparr> status_code = 401, body = [] \<rparr>
                  else if u = ''http://iad/ingest''
                  then Inr \<lparr> status_code = 200, body = [] \<rparr>
                  else if u = ''http://iad/deep''
                  then Inr \<lparr> status_code = 200, body = replicate 1001 (CHR ''['') \<rparr>
                  else Inr \<lparr> status_code = 200, body = ''[]'' \<rparr>) \<rparr>"

definition example_client :: blueflood where
  "example_client =
     new_client (Some ''http://id/'') (Some ''key'') (Some ''user'') ''IAD'' None None"

section \<open>Facts about the identity exchange\<close>

lemma update_catalog_loop_frame:
  "update_catalog_loop ss c = (r, c') \<Longrightarrow>
   priv_token c' = priv_token c \<and> auth_url c' = auth_url c \<and> apikey c' = apikey c \<and>
   username c' = username c"
  by (induction ss arbitrary: c) (auto split: sum.splits if_splits)

lemma update_catalog_frame:
  "update_catalog cat c = (r, c') \<Longrightarrow>
   priv_token c' = priv_token c \<and> auth_url c' = auth_url c \<and> apikey c' = apikey c \<and>
   username c' = username c"
  by (auto simp: update_catalog_def split: sum.splits dest: update_catalog_loop_frame)

lemma get_token_cached:
  "priv_token c \<noteq> JNull \<Longrightarrow> get_token env (c, tr) = (Inr (priv_token c), (c, tr))"
  by (simp add: get_token_def)

lemma get_token_absent_trace:
  "priv_token c = JNull \<Longrightarrow>
   snd (snd (get_token env (c, tr))) = tr @ [identity_request env c]"
  by (simp add: get_token_def Let_def split: sum.splits option.splits prod.splits)

lemma get_token_returns_stored:
  "get_token env (c, tr) = (Inr t, (c', tr')) \<Longrightarrow> priv_token c' = t"
  by (auto simp: get_token_def Let_def split: sum.splits option.splits prod.splits if_splits)

lemma get_token_failure_trace:
  "get_token env (c, tr) = (Inl e, (c', tr')) \<Longrightarrow> tr' = tr @ [identity_request env c]"
  by (auto simp: get_token_def Let_def split: sum.splits option.splits prod.splits if_splits)

lemma get_token_trace_cases:
  "get_token env (c, tr) = (r, (c', tr')) \<Longrightarrow> tr' = tr \<or> tr' = tr @ [identity_request env c]"
  by (auto simp: get_token_def Let_def split: sum.splits option.splits prod.splits if_splits)

lemma get_token_data_sends:
  "get_token env (c, tr) = (r, (c', tr')) \<Longrightarrow> data_sends tr' = data_sends tr"
  by (auto simp: data_sends_def identity_request_def dest!: get_token_trace_cases)

lemma identity_exchanges_snoc:
  "identity_exchanges (tr @ [identity_request env c]) = identity_exchanges tr + 1"
  by (simp add: identity_exchanges_def identity_request_def)

lemma identity_request_invalidate:
  "identity_request env (invalidate_token c) = identity_request env c"
  by (simp add: identity_request_def invalidate_token_def credentials_def)

lemma get_token_exchange:
  assumes "priv_token c = JNull" and "get_token env (c, tr) = (Inr t, (c', tr'))"
  shows "\<exists>resp j cat. net env tr (identity_request env c) = Inr resp \<and>
           loads env (body resp) = Inr j \<and> token_id j = Inr t \<and>
           service_catalog_of j = Inr cat \<and>
           update_catalog cat (c\<lparr>priv_token := t\<rparr>) = (Inr (), c')"
proof -
  from assms obtain resp j tid cat r where
    n: "net env tr (identity_request env c) = Inr resp" and
    l: "loads env (body resp) = Inr j" and
    i: "token_id j = Inr tid" and
    s: "service_catalog_of j = Inr cat" and
    u: "update_catalog cat (c\<lparr>priv_token := tid\<rparr>) = (Inr r, c')" and
    t: "t = priv_token c'"
    by (auto simp: get_token_def Let_def split: sum.splits option.splits prod.splits if_splits)
  from u have "priv_token c' = tid" by (auto dest: update_catalog_frame)
  with n l i s u t show ?thesis by simp
qed

lemma names_differ: "ingest_name \<noteq> read_name"
  by (simp add: ingest_name_def read_name_def)

lemma update_catalog_loop_stored:
  "update_catalog_loop ss c = (Inr u, c') \<Longrightarrow>
   read_service c' =
     (if filter (\<lambda>s. subscript s ''name'' = Inr (JStr read_name)) ss = [] then read_service c
      else last (filter (\<lambda>s. subscript s ''name'' = Inr (JStr read_name)) ss)) \<and>
   ingest_service c' =
     (if filter (\<lambda>s. subscript s ''name'' = Inr (JStr ingest_name)) ss = []
      then ingest_service c
      else last (filter (\<lambda>s. subscript s ''name'' = Inr (JStr ingest_name)) ss))"
proof (induction ss arbitrary: c)
  case Nil
  then show ?case by simp
next
  case (Cons s ss)
  from Cons.prems obtain n where n: "subscript s ''name'' = Inr n"
    by (auto split: sum.splits)
  consider (ingest) "n = JStr ingest_name"
    | (read) "n \<noteq> JStr ingest_name" "n = JStr read_name"
    | (other) "n \<noteq> JStr ingest_name" "n \<noteq> JStr read_name"
    by blast
  then show ?case
  proof cases
    case ingest
    with n Cons.prems have "update_catalog_loop ss (c\<lparr>ingest_service := s\<rparr>) = (Inr u, c')"
      by simp
    from Cons.IH [OF this] n ingest names_differ show ?thesis by simp
  next
    case read
    with n Cons.prems have "update_catalog_loop ss (c\<lparr>read_service := s\<rparr>) = (Inr u, c')"
      by simp
    from Cons.IH [OF this] n read show ?thesis by simp
  next
    case other
    with n Cons.prems have "update_catalog_loop ss c = (Inr u, c')"
      by simp
    from Cons.IH [OF this] n other show ?thesis by simp
  qed
qed

lemma url_for_region_loop_no_match:
  "\<forall>e \<in> set es. \<exists>f. e = JObj f \<and> map_of f ''region'' \<noteq> Some (JStr r) \<Longrightarrow>
   url_for_region_loop es r = Inr JNull"
  by (induction es) (auto split: option.splits)

lemma request_data_sends_bound:
  "data_sends (snd (snd (request env url m d h p (c, tr)))) \<le> data_sends tr + 2"
proof -
  obtain r1 c1 tr1 where g1: "get_token env (c, tr) = (r1, (c1, tr1))"
    by (metis prod.exhaust)
  then have d1: "data_sends tr1 = data_sends tr" by (rule get_token_data_sends)
  show ?thesis
  proof (cases r1)
    case (Inl e)
    with g1 d1 show ?thesis by (simp add: request_def)
  next
    case (Inr tok)
    let ?ev1 = "DataSend m url (request_kwargs env tok d h p)"
    obtain r2 c3 tr3 where
      g2: "get_token env (invalidate_token c1, tr1 @ [?ev1]) = (r2, (c3, tr3))"
      by (metis prod.exhaust)
    then have "data_sends tr3 = data_sends (tr1 @ [?ev1])" by (rule get_token_data_sends)
    then have d3: "data_sends tr3 = data_sends tr + 1" using d1 by (simp add: data_sends_def)
    from g1 Inr g2 d1 d3 show ?thesis
      by (auto simp: request_def send_def Let_def data_sends_def split: sum.splits)
  qed
qed

section \<open>The two servers, run\<close>

lemma first_exchange_401:
  "get_token always_401_env (example_client, []) =
     (Inr (JStr ''T1''),
      (example_client\<lparr>priv_token := JStr ''T1'', read_service := example_read_entry\<rparr>,
       [identity_request always_401_env example_client]))"
  by (simp add: get_token_def new_client_def example_client_def always_401_env_def Let_def
      identity_request_def identity_exchanges_def raise_for_status_def token_id_def
      service_catalog_of_def first_identity_body_def example_read_entry_def update_catalog_def
      ingest_name_def read_name_def example_loads_def example_identity_def)

lemma first_exchange_expiring:
  "get_token expiring_token_env (example_client, []) =
     (Inr (JStr ''T1''),
      (example_client\<lparr>priv_token := JStr ''T1'', read_service := example_read_entry\<rparr>,
       [identity_request expiring_token_env example_client]))"
  by (simp add: get_token_def new_client_def example_client_def expiring_token_env_def Let_def
      identity_request_def identity_exchanges_def raise_for_status_def token_id_def
      service_catalog_of_def first_identity_body_def example_read_entry_def update_catalog_def
      ingest_name_def read_name_def example_loads_def example_identity_def)

lemma second_exchange_401:
  "get_token always_401_env
     (invalidate_token
        (example_client\<lparr>priv_token := JStr ''T1'', read_service := example_read_entry\<rparr>),
      [identity_request always_401_env example_client, DataSend m url kw]) =
     (Inr (JStr ''T2''),
      (example_client\<lparr>priv_token := JStr ''T2'', read_service := example_read_entry\<rparr>,
       [identity_request always_401_env example_client, DataSend m url kw,
        identity_request always_401_env example_client]))"
  by (simp add: get_token_def new_client_def example_client_def always_401_env_def Let_def
      identity_request_def identity_exchanges_def raise_for_status_def token_id_def
      service_catalog_of_def second_identity_body_def update_catalog_def credentials_def
      example_loads_def example_identity_def invalidate_token_def)

lemma second_exchange_expiring:
  "get_token expiring_token_env
     (invalidate_token
        (example_client\<lparr>priv_token := JStr ''T1'', read_service := example_read_entry\<rparr>),
      [identity_request expiring_token_env example_client, DataSend m url kw]) =
     (Inr (JStr ''T2''),
      (example_client\<lparr>priv_token := JStr ''T2'', read_service := example_read_entry\<rparr>,
       [identity_request expiring_token_env example_client, DataSend m url kw,
        identity_request expiring_token_env example_client]))"
  by (simp add: get_token_def new_client_def example_client_def expiring_token_env_def Let_def
      identity_request_def identity_exchanges_def raise_for_status_def token_id_def
      service_catalog_of_def second_identity_body_def update_catalog_def credentials_def
      example_loads_def example_identity_def invalidate_token_def)

section \<open>Facts about request\<close>

lemma request_replay_state:
  assumes "get_token env (c, tr) = (Inr tok, (c1, tr1))"
    and "net env tr1 (DataSend m url (request_kwargs env tok d h p)) = Inr r1"
    and "status_code r1 = 401"
    and "get_token env
           (invalidate_token c1, tr1 @ [DataSend m url (request_kwargs env tok d h p)])
         = (Inr tok2, (c3, tr3))"
  shows "snd (request env url m d h p (c, tr)) =
           (c3, tr3 @ [DataSend m url ((request_kwargs env tok d h p)
               \<lparr>kw_headers := (kw_headers (request_kwargs env tok d h p))
                                (''X-Auth-Token'' \<mapsto> tok2)\<rparr>)])"
    and "net env tr3 (DataSend m url ((request_kwargs env tok d h p)
               \<lparr>kw_headers := (kw_headers (request_kwargs env tok d h p))
                                (''X-Auth-Token'' \<mapsto> tok2)\<rparr>)) = Inr r2 \<Longrightarrow>
         fst (request env url m d h p (c, tr)) = decode_response env r2"
  using assms by (simp_all add: request_def send_def Let_def split: sum.splits)

lemma expiring_replay:
  assumes "net expiring_token_env
             [identity_request expiring_token_env example_client,
              DataSend m u (request_kwargs expiring_token_env (JStr ''T1'') d None None),
              identity_request expiring_token_env example_client]
             (DataSend m u ((request_kwargs expiring_token_env (JStr ''T1'') d None None)
                \<lparr>kw_headers :=
                   (kw_headers (request_kwargs expiring_token_env (JStr ''T1'') d None None))
                   (''X-Auth-Token'' \<mapsto> JStr ''T2'')\<rparr>)) = Inr resp"
  shows "request expiring_token_env u m d None None (example_client, []) =
     (decode_response expiring_token_env resp,
      (example_client\<lparr>priv_token := JStr ''T2'', read_service := example_read_entry\<rparr>,
       [identity_request expiring_token_env example_client,
        DataSend m u (request_kwargs expiring_token_env (JStr ''T1'') d None None),
        identity_request expiring_token_env example_client] @
       [DataSend m u ((request_kwargs expiring_token_env (JStr ''T1'') d None None)
          \<lparr>kw_headers :=
             (kw_headers (request_kwargs expiring_token_env (JStr ''T1'') d None None))
             (''X-Auth-Token'' \<mapsto> JStr ''T2'')\<rparr>)]))"
proof -
  let ?env = expiring_token_env
  let ?kw = "request_kwargs ?env (JStr ''T1'') d None None"
  let ?c1 = "example_client\<lparr>priv_token := JStr ''T1'', read_service := example_read_entry\<rparr>"
  let ?c3 = "example_client\<lparr>priv_token := JStr ''T2'', read_service := example_read_entry\<rparr>"
  let ?tr1 = "[identity_request ?env example_client]"
  let ?tr3 = "[identity_request ?env example_client, DataSend m u ?kw,
               identity_request ?env example_client]"
  have g1: "get_token ?env (example_client, []) = (Inr (JStr ''T1''), (?c1, ?tr1))"
    by (rule first_exchange_expiring)
  have n1: "net ?env ?tr1 (DataSend m u ?kw) = Inr \<lparr>status_code = 401, body = []\<rparr>"
    by (simp add: expiring_token_env_def request_kwargs_def)
  have s1: "status_code \<lparr>status_code = 401, body = []\<rparr> = 401" by simp
  have g2: "get_token ?env (invalidate_token ?c1, ?tr1 @ [DataSend m u ?kw])
      = (Inr (JStr ''T2''), (?c3, ?tr3))"
    using second_exchange_expiring [of m u ?kw] by simp
  from request_replay_state(1) [OF g1 n1 s1 g2]
    request_replay_state(2) [OF g1 n1 s1 g2 assms]
  show ?thesis by (simp add: prod_eq_iff)
qed

section \<open>Session manager\<close>

text \<open>
  C7. \<open>invalidate_token\<close> leaves the token absent, a second call changes nothing, and the
  stored read and ingest services and every other attribute of the client are unchanged.
\<close>

theorem invalidate_token_clears_only_the_token:
  "priv_token (invalidate_token c) = JNull \<and>
   invalidate_token (invalidate_token c) = invalidate_token c \<and>
   read_service (invalidate_token c) = read_service c \<and>
   ingest_service (invalidate_token c) = ingest_service c \<and>
   auth_url (invalidate_token c) = auth_url c \<and>
   priv_read_url (invalidate_token c) = priv_read_url c \<and>
   priv_ingest_url (invalidate_token c) = priv_ingest_url c \<and>
   apikey (invalidate_token c) = apikey c \<and>
   username (invalidate_token c) = username c \<and>
   region (invalidate_token c) = region c"
  by (simp add: invalidate_token_def)

text \<open>
  C6. When an override url is configured for a kind, \<open>read_url\<close> (\<open>ingest_url\<close>) returns
  it whatever the stored services are: absent, or without the requested region.
\<close>

theorem override_url_wins:
  "(priv_read_url c = Some u \<longrightarrow>
      read_url (c\<lparr>read_service := rs, ingest_service := igs\<rparr>) r = Inr (JStr u)) \<and>
   (priv_ingest_url c = Some u \<longrightarrow>
      ingest_url (c\<lparr>read_service := rs, ingest_service := igs\<rparr>) r = Inr (JStr u))"
  by (simp add: read_url_def ingest_url_def)

theorem override_url_wins_witness:
  "priv_read_url (new_client None None None ''IAD'' (Some ''http://i'') (Some ''http://r''))
     = Some ''http://r'' \<and>
   priv_ingest_url (new_client None None None ''IAD'' (Some ''http://i'') (Some ''http://r''))
     = Some ''http://i'' \<and>
   read_url
     ((new_client None None None ''IAD'' (Some ''http://i'') (Some ''http://r''))
        \<lparr>read_service := JNull, ingest_service := JNull\<rparr>) ''IAD''
     = Inr (JStr ''http://r'') \<and>
   ingest_url
     ((new_client None None None ''IAD'' (Some ''http://i'') (Some ''http://r''))
        \<lparr>read_service := example_read_entry, ingest_service := example_read_entry\<rparr>) ''ORD''
     = Inr (JStr ''http://i'')"
proof -
  let ?c = "new_client None None None ''IAD'' (Some ''http://i'') (Some ''http://r'')"
  have r: "priv_read_url ?c = Some ''http://r''" by (simp add: new_client_def)
  have i: "priv_ingest_url ?c = Some ''http://i''" by (simp add: new_client_def)
  from override_url_wins [of ?c "''http://r''" JNull JNull "''IAD''"] r
  have 1: "read_url (?c\<lparr>read_service := JNull, ingest_service := JNull\<rparr>) ''IAD''
             = Inr (JStr ''http://r'')"
    by simp
  from override_url_wins [of ?c "''http://i''" example_read_entry example_read_entry "''ORD''"] i
  have 2: "ingest_url
             (?c\<lparr>read_service := example_read_entry, ingest_service := example_read_entry\<rparr>)
             ''ORD'' = Inr (JStr ''http://i'')"
    by simp
  from r i 1 2 show ?thesis by simp
qed

text \<open>
  C2, as the code has it. Without an override url: when the service is absent,
  \<open>read_url\<close> (\<open>ingest_url\<close>) raises an exception; when the service is stored, its
  endpoints are a list of dicts and none of them has the requested region, the call
  returns \<^verbatim>\<open>None\<close> and raises nothing.
\<close>

theorem resolve_without_override:
  "(priv_read_url c = None \<and> read_service c = JNull \<longrightarrow>
      read_url c r = Inl (Exception ''No read service found'')) \<and>
   (priv_ingest_url c = None \<and> ingest_service c = JNull \<longrightarrow>
      ingest_url c r = Inl (Exception ''No ingest service found'')) \<and>
   (priv_read_url c = None \<and> read_service c = JObj kvs \<and>
    map_of kvs ''endpoints'' = Some (JArr es) \<and>
    (\<forall>e \<in> set es. \<exists>f. e = JObj f \<and> map_of f ''region'' \<noteq> Some (JStr r)) \<longrightarrow>
      read_url c r = Inr JNull) \<and>
   (priv_ingest_url c = None \<and> ingest_service c = JObj kvs \<and>
    map_of kvs ''endpoints'' = Some (JArr es) \<and>
    (\<forall>e \<in> set es. \<exists>f. e = JObj f \<and> map_of f ''region'' \<noteq> Some (JStr r)) \<longrightarrow>
      ingest_url c r = Inr JNull)"
  by (simp add: read_url_def ingest_url_def url_for_region_def url_for_region_loop_no_match)

theorem resolve_without_override_witness:
  "read_url (new_client None None None ''IAD'' None None) ''IAD''
     = Inl (Exception ''No read service found'') \<and>
   ingest_url (new_client None None None ''IAD'' None None) ''IAD''
     = Inl (Exception ''No ingest service found'') \<and>
   read_url
     ((new_client None None None ''IAD'' None None)\<lparr>read_service := example_read_entry\<rparr>) ''ORD''
     = Inr JNull \<and>
   ingest_url
     ((new_client None None None ''IAD'' None None)\<lparr>ingest_service := example_read_entry\<rparr>)
     ''ORD'' = Inr JNull"
proof -
  let ?c = "new_client None None None ''IAD'' None None"
  let ?kvs = "[(''name'', JStr ''cloudMetrics''),
               (''endpoints'',
                  JArr [JObj [(''region'', JStr ''IAD''), (''publicURL'', JStr ''http://iad'')]])]"
  let ?es = "[JObj [(''region'', JStr ''IAD''), (''publicURL'', JStr ''http://iad'')]]"
  have n: "priv_read_url ?c = None \<and> read_service ?c = JNull \<and>
           priv_ingest_url ?c = None \<and> ingest_service ?c = JNull"
    by (simp add: new_client_def)
  have e: "map_of ?kvs ''endpoints'' = Some (JArr ?es)" by simp
  have a: "\<forall>e \<in> set ?es. \<exists>f. e = JObj f \<and> map_of f ''region'' \<noteq> Some (JStr ''ORD'')"
    by simp
  have s: "example_read_entry = JObj ?kvs" by (simp add: example_read_entry_def)
  from resolve_without_override [of ?c "''IAD''"] n
  have 1: "read_url ?c ''IAD'' = Inl (Exception ''No read service found'') \<and>
           ingest_url ?c ''IAD'' = Inl (Exception ''No ingest service found'')"
    by simp
  from resolve_without_override [of "?c\<lparr>read_service := example_read_entry\<rparr>" "''ORD''" ?kvs ?es]
    n e a s
  have 2: "read_url (?c\<lparr>read_service := example_read_entry\<rparr>) ''ORD'' = Inr JNull"
    by simp
  from resolve_without_override
    [of "?c\<lparr>ingest_service := example_read_entry\<rparr>" "''ORD''" ?kvs ?es] n e a s
  have 3: "ingest_url (?c\<lparr>ingest_service := example_read_entry\<rparr>) ''ORD'' = Inr JNull"
    by simp
  from 1 2 3 show ?thesis by simp
qed

text \<open>
  C2 as stated fails: a client without an override whose stored read service has a single
  endpoint, for region ORD, resolves region IAD to \<^verbatim>\<open>None\<close> without raising.
\<close>

theorem read_url_unmatched_region_counterexample:
  "priv_read_url
     ((new_client None None None ''IAD'' None None)
        \<lparr>read_service :=
           JObj [(''name'', JStr ''cloudMetrics''),
                 (''endpoints'',
                    JArr [JObj [(''region'', JStr ''ORD''),
                                (''publicURL'', JStr ''http://ord'')]])]\<rparr>) = None \<and>
   read_url
     ((new_client None None None ''IAD'' None None)
        \<lparr>read_service :=
           JObj [(''name'', JStr ''cloudMetrics''),
                 (''endpoints'',
                    JArr [JObj [(''region'', JStr ''ORD''),
                                (''publicURL'', JStr ''http://ord'')]])]\<rparr>) ''IAD''
     = Inr JNull"
  by (simp add: new_client_def read_url_def url_for_region_def)

text \<open>
  C3. With a token cached, \<open>get_token\<close> returns it and nothing changes: no call is made.
  From an absent token, a first call that returns a token makes one identity exchange, and
  a second call returns the same token and makes none.
\<close>

theorem get_token_caches:
  "(priv_token c \<noteq> JNull \<longrightarrow> get_token env (c, tr) = (Inr (priv_token c), (c, tr))) \<and>
   (priv_token c = JNull \<and> get_token env (c, tr) = (Inr t, (c1, tr1)) \<and> t \<noteq> JNull \<longrightarrow>
      get_token env (c1, tr1) = (Inr t, (c1, tr1)) \<and>
      identity_exchanges tr1 = identity_exchanges tr + 1)"
proof (intro conjI impI)
  assume "priv_token c \<noteq> JNull"
  then show "get_token env (c, tr) = (Inr (priv_token c), (c, tr))"
    by (rule get_token_cached)
next
  assume a: "priv_token c = JNull \<and> get_token env (c, tr) = (Inr t, (c1, tr1)) \<and> t \<noteq> JNull"
  then have "priv_token c1 = t" by (auto dest: get_token_returns_stored)
  with a show "get_token env (c1, tr1) = (Inr t, (c1, tr1))"
    using get_token_cached [of c1 env tr1] by simp
next
  assume a: "priv_token c = JNull \<and> get_token env (c, tr) = (Inr t, (c1, tr1)) \<and> t \<noteq> JNull"
  then have "tr1 = tr @ [identity_request env c]"
    using get_token_absent_trace [of c env tr] by simp
  then show "identity_exchanges tr1 = identity_exchanges tr + 1"
    by (simp add: identity_exchanges_snoc)
qed

theorem get_token_caches_witness:
  "priv_token example_client = JNull \<and>
   get_token always_401_env (example_client, []) =
     (Inr (JStr ''T1''),
      (example_client\<lparr>priv_token := JStr ''T1'', read_service := example_read_entry\<rparr>,
       [identity_request always_401_env example_client])) \<and>
   get_token always_401_env
     (example_client\<lparr>priv_token := JStr ''T1'', read_service := example_read_entry\<rparr>,
      [identity_request always_401_env example_client]) =
     (Inr (JStr ''T1''),
      (example_client\<lparr>priv_token := JStr ''T1'', read_service := example_read_entry\<rparr>,
       [identity_request always_401_env example_client])) \<and>
   identity_exchanges [identity_request always_401_env example_client] = 1"
proof -
  let ?c1 = "example_client\<lparr>priv_token := JStr ''T1'', read_service := example_read_entry\<rparr>"
  let ?tr1 = "[identity_request always_401_env example_client]"
  have n: "priv_token example_client = JNull"
    by (simp add: example_client_def new_client_def)
  have c: "priv_token ?c1 \<noteq> JNull" by simp
  from get_token_caches [of example_client always_401_env "[]" "JStr ''T1''" ?c1 ?tr1]
    n first_exchange_401
  have 1: "get_token always_401_env (?c1, ?tr1) = (Inr (JStr ''T1''), (?c1, ?tr1)) \<and>
           identity_exchanges ?tr1 = 1"
    by (simp add: identity_exchanges_def)
  from get_token_caches [of ?c1 always_401_env ?tr1] c
  have 2: "get_token always_401_env (?c1, ?tr1) = (Inr (priv_token ?c1), (?c1, ?tr1))"
    by simp
  from n first_exchange_401 1 2 show ?thesis by simp
qed

text \<open>
  C4, as the code has it. After an identity exchange that succeeds, the stored read
  (ingest) service is the last entry of the response's catalog named \<^verbatim>\<open>cloudMetrics\<close>
  (\<^verbatim>\<open>cloudMetricsIngest\<close>) when there is one; when there is none, the service stored
  before the exchange is kept.
\<close>

theorem identity_exchange_merges_catalog:
  "priv_token c = JNull \<and> get_token env (c, tr) = (Inr t, (c1, tr1)) \<longrightarrow>
     (\<exists>resp j cat ss.
        net env tr (identity_request env c) = Inr resp \<and>
        loads env (body resp) = Inr j \<and>
        service_catalog_of j = Inr cat \<and>
        py_iter cat = Inr ss \<and>
        read_service c1 =
          (if filter (\<lambda>s. subscript s ''name'' = Inr (JStr read_name)) ss = []
           then read_service c
           else last (filter (\<lambda>s. subscript s ''name'' = Inr (JStr read_name)) ss)) \<and>
        ingest_service c1 =
          (if filter (\<lambda>s. subscript s ''name'' = Inr (JStr ingest_name)) ss = []
           then ingest_service c
           else last (filter (\<lambda>s. subscript s ''name'' = Inr (JStr ingest_name)) ss)))"
proof
  assume a: "priv_token c = JNull \<and> get_token env (c, tr) = (Inr t, (c1, tr1))"
  then obtain resp j cat where
    n: "net env tr (identity_request env c) = Inr resp" and
    l: "loads env (body resp) = Inr j" and
    s: "service_catalog_of j = Inr cat" and
    u: "update_catalog cat (c\<lparr>priv_token := t\<rparr>) = (Inr (), c1)"
    using get_token_exchange [of c env tr t c1 tr1] by blast
  from u obtain ss where
    i: "py_iter cat = Inr ss" and
    lp: "update_catalog_loop ss (c\<lparr>priv_token := t\<rparr>) = (Inr (), c1)"
    by (auto simp: update_catalog_def split: sum.splits)
  from update_catalog_loop_stored [OF lp] n l s i
  show "\<exists>resp j cat ss.
        net env tr (identity_request env c) = Inr resp \<and>
        loads env (body resp) = Inr j \<and>
        service_catalog_of j = Inr cat \<and>
        py_iter cat = Inr ss \<and>
        read_service c1 =
          (if filter (\<lambda>s. subscript s ''name'' = Inr (JStr read_name)) ss = []
           then read_service c
           else last (filter (\<lambda>s. subscript s ''name'' = Inr (JStr read_name)) ss)) \<and>
        ingest_service c1 =
          (if filter (\<lambda>s. subscript s ''name'' = Inr (JStr ingest_name)) ss = []
           then ingest_service c
           else last (filter (\<lambda>s. subscript s ''name'' = Inr (JStr ingest_name)) ss))"
    by auto
qed

theorem identity_exchange_merges_catalog_witness:
  "priv_token example_client = JNull \<and>
   get_token always_401_env (example_client, []) =
     (Inr (JStr ''T1''),
      (example_client\<lparr>priv_token := JStr ''T1'', read_service := example_read_entry\<rparr>,
       [identity_request always_401_env example_client])) \<and>
   (\<exists>resp j cat ss.
      net always_401_env [] (identity_request always_401_env example_client) = Inr resp \<and>
      loads always_401_env (body resp) = Inr j \<and>
      service_catalog_of j = Inr cat \<and>
      py_iter cat = Inr ss \<and>
      read_service
        (example_client\<lparr>priv_token := JStr ''T1'', read_service := example_read_entry\<rparr>) =
        (if filter (\<lambda>s. subscript s ''name'' = Inr (JStr read_name)) ss = []
         then read_service example_client
         else last (filter (\<lambda>s. subscript s ''name'' = Inr (JStr read_name)) ss)) \<and>
      ingest_service
        (example_client\<lparr>priv_token := JStr ''T1'', read_service := example_read_entry\<rparr>) =
        (if filter (\<lambda>s. subscript s ''name'' = Inr (JStr ingest_name)) ss = []
         then ingest_service example_client
         else last (filter (\<lambda>s. subscript s ''name'' = Inr (JStr ingest_name)) ss)))"
proof -
  have n: "priv_token example_client = JNull"
    by (simp add: example_client_def new_client_def)
  note g = first_exchange_401
  note e = identity_exchange_merges_catalog
    [of example_client always_401_env "[]" "JStr ''T1''"
        "example_client\<lparr>priv_token := JStr ''T1'', read_service := example_read_entry\<rparr>"
        "[identity_request always_401_env example_client]", THEN mp, OF conjI [OF n g]]
  show ?thesis by (rule conjI [OF n conjI [OF g e]])
qed

text \<open>
  C4 as stated fails. The client is constructed against a server whose first identity
  response lists \<^verbatim>\<open>cloudMetrics\<close>; its token is invalidated; the next identity response
  has an empty catalog. The read service of the first response is still stored.
\<close>

theorem stale_read_service_counterexample:
  "Blueflood_init always_401_env (Some ''http://id/'') (Some ''key'') (Some ''user'') ''IAD''
       None None [] =
     (Inr (example_client\<lparr>priv_token := JStr ''T1'', read_service := example_read_entry\<rparr>),
      [identity_request always_401_env example_client]) \<and>
   service_catalog_of second_identity_body = Inr (JArr []) \<and>
   get_token always_401_env
     (invalidate_token
        (example_client\<lparr>priv_token := JStr ''T1'', read_service := example_read_entry\<rparr>),
      [identity_request always_401_env example_client]) =
     (Inr (JStr ''T2''),
      (example_client\<lparr>priv_token := JStr ''T2'', read_service := example_read_entry\<rparr>,
       [identity_request always_401_env example_client,
        identity_request always_401_env example_client])) \<and>
   read_service
     (example_client\<lparr>priv_token := JStr ''T2'', read_service := example_read_entry\<rparr>) \<noteq> JNull"
proof -
  have 1: "Blueflood_init always_401_env (Some ''http://id/'') (Some ''key'') (Some ''user'')
             ''IAD'' None None [] =
           (Inr (example_client\<lparr>priv_token := JStr ''T1'', read_service := example_read_entry\<rparr>),
            [identity_request always_401_env example_client])"
    using first_exchange_401 by (simp add: Blueflood_init_def example_client_def)
  have 2: "service_catalog_of second_identity_body = Inr (JArr [])"
    by (simp add: service_catalog_of_def second_identity_body_def)
  have 3: "get_token always_401_env
     (invalidate_token
        (example_client\<lparr>priv_token := JStr ''T1'', read_service := example_read_entry\<rparr>),
      [identity_request always_401_env example_client]) =
     (Inr (JStr ''T2''),
      (example_client\<lparr>priv_token := JStr ''T2'', read_service := example_read_entry\<rparr>,
       [identity_request always_401_env example_client,
        identity_request always_401_env example_client]))"
    by (simp add: get_token_def new_client_def example_client_def always_401_env_def Let_def
        identity_request_def identity_exchanges_def raise_for_status_def token_id_def
        service_catalog_of_def second_identity_body_def update_catalog_def credentials_def
        example_loads_def example_identity_def invalidate_token_def)
  have 4: "read_service
     (example_client\<lparr>priv_token := JStr ''T2'', read_service := example_read_entry\<rparr>) \<noteq> JNull"
    by (simp add: example_read_entry_def)
  from 1 2 3 4 show ?thesis by simp
qed

text \<open>
  C5, as the code has it. Construction sets the token absent and calls \<open>get_token\<close>: it
  always makes exactly one identity exchange, and when it succeeds the client holds the
  token id of that response.
\<close>

theorem construction_authenticates:
  "identity_exchanges (snd (Blueflood_init env a k u r i rd tr)) = identity_exchanges tr + 1 \<and>
   (Blueflood_init env a k u r i rd tr = (Inr c, tr1) \<longrightarrow>
      (\<exists>resp j.
         net env tr (identity_request env (new_client a k u r i rd)) = Inr resp \<and>
         loads env (body resp) = Inr j \<and>
         token_id j = Inr (priv_token c)))"
proof (intro conjI impI)
  let ?c0 = "new_client a k u r i rd"
  have n: "priv_token ?c0 = JNull" by (simp add: new_client_def)
  obtain res c1 t1 where g: "get_token env (?c0, tr) = (res, (c1, t1))"
    by (metis prod.exhaust)
  with get_token_absent_trace [OF n, of env tr]
  have t1: "t1 = tr @ [identity_request env ?c0]" by simp
  from g have "snd (Blueflood_init env a k u r i rd tr) = t1"
    by (simp add: Blueflood_init_def split: sum.splits)
  with t1 show "identity_exchanges (snd (Blueflood_init env a k u r i rd tr)) =
      identity_exchanges tr + 1"
    by (simp add: identity_exchanges_snoc)
  assume b: "Blueflood_init env a k u r i rd tr = (Inr c, tr1)"
  with g obtain t where "get_token env (?c0, tr) = (Inr t, (c, tr1))"
    by (auto simp: Blueflood_init_def split: sum.splits)
  from get_token_exchange [OF n this] get_token_returns_stored [OF this]
  show "\<exists>resp j.
         net env tr (identity_request env ?c0) = Inr resp \<and>
         loads env (body resp) = Inr j \<and>
         token_id j = Inr (priv_token c)"
    by auto
qed

theorem construction_authenticates_witness:
  "Blueflood_init expiring_token_env (Some ''http://id/'') (Some ''key'') (Some ''user'') ''IAD''
       None None [] =
     (Inr (example_client\<lparr>priv_token := JStr ''T1'', read_service := example_read_entry\<rparr>),
      [identity_request expiring_token_env example_client]) \<and>
   (\<exists>resp j.
      net expiring_token_env [] (identity_request expiring_token_env example_client) = Inr resp \<and>
      loads expiring_token_env (body resp) = Inr j \<and>
      token_id j = Inr (JStr ''T1''))"
proof -
  have 1: "Blueflood_init expiring_token_env (Some ''http://id/'') (Some ''key'') (Some ''user'')
             ''IAD'' None None [] =
           (Inr (example_client\<lparr>priv_token := JStr ''T1'', read_service := example_read_entry\<rparr>),
            [identity_request expiring_token_env example_client])"
    using first_exchange_expiring by (simp add: Blueflood_init_def example_client_def)
  from construction_authenticates
    [of expiring_token_env "Some ''http://id/''" "Some ''key''" "Some ''user''" "''IAD''"
        None None "[]"
        "example_client\<lparr>priv_token := JStr ''T1'', read_service := example_read_entry\<rparr>"
        "[identity_request expiring_token_env example_client]"] 1
  show ?thesis by (simp add: example_client_def)
qed

text \<open>
  C5 as stated fails: constructing a client makes an identity exchange and leaves the
  token of the response stored.
\<close>

theorem construction_stores_token_counterexample:
  "identity_exchanges
     (snd (Blueflood_init always_401_env (Some ''http://id/'') (Some ''key'') (Some ''user'')
             ''IAD'' None None [])) = 1 \<and>
   map_sum id priv_token
     (fst (Blueflood_init always_401_env (Some ''http://id/'') (Some ''key'') (Some ''user'')
             ''IAD'' None None [])) = Inr (JStr ''T1'')"
proof -
  have "Blueflood_init always_401_env (Some ''http://id/'') (Some ''key'') (Some ''user'')
             ''IAD'' None None [] =
           (Inr (example_client\<lparr>priv_token := JStr ''T1'', read_service := example_read_entry\<rparr>),
            [identity_request always_401_env example_client])"
    using first_exchange_401 by (simp add: Blueflood_init_def example_client_def)
  then show ?thesis by (simp add: identity_exchanges_def identity_request_def)
qed

section \<open>Request executor\<close>

text \<open>
  C1. A call of \<open>request\<close> makes at most two data-plane calls. When the first response
  is 401, the token is invalidated and an identity exchange is made; with the token it
  gives, the same method, url, parameters and data are sent once more, the headers
  differing in \<^verbatim>\<open>X-Auth-Token\<close> only, and nothing is sent after that. When that second
  response is an error (401 included), the call raises \<^verbatim>\<open>HTTPError\<close> with its status and
  body, two data-plane calls having been made.
\<close>

theorem request_reauthenticates_once:
  "data_sends (snd (snd (request env url m d h p (c, tr)))) \<le> data_sends tr + 2 \<and>
   (get_token env (c, tr) = (Inr tok, (c1, tr1)) \<and>
    net env tr1 (DataSend m url (request_kwargs env tok d h p)) = Inr r1 \<and>
    status_code r1 = 401 \<and>
    get_token env (invalidate_token c1, tr1 @ [DataSend m url (request_kwargs env tok d h p)])
      = (Inr tok2, (c3, tr3)) \<longrightarrow>
      tr3 = tr1 @ [DataSend m url (request_kwargs env tok d h p), identity_request env c1] \<and>
      snd (request env url m d h p (c, tr)) =
        (c3, tr3 @ [DataSend m url ((request_kwargs env tok d h p)
               \<lparr>kw_headers := (kw_headers (request_kwargs env tok d h p))
                                (''X-Auth-Token'' \<mapsto> tok2)\<rparr>)]) \<and>
      (net env tr3 (DataSend m url ((request_kwargs env tok d h p)
               \<lparr>kw_headers := (kw_headers (request_kwargs env tok d h p))
                                (''X-Auth-Token'' \<mapsto> tok2)\<rparr>)) = Inr r2 \<and>
       400 \<le> status_code r2 \<and> status_code r2 < 600 \<longrightarrow>
         fst (request env url m d h p (c, tr)) = Inl (HTTPError (status_code r2) (body r2)) \<and>
         data_sends (snd (snd (request env url m d h p (c, tr)))) = data_sends tr + 2))"
proof (intro conjI impI)
  show "data_sends (snd (snd (request env url m d h p (c, tr)))) \<le> data_sends tr + 2"
    by (rule request_data_sends_bound)
next
  let ?ev1 = "DataSend m url (request_kwargs env tok d h p)"
  let ?ev2 = "DataSend m url ((request_kwargs env tok d h p)
               \<lparr>kw_headers := (kw_headers (request_kwargs env tok d h p))
                                (''X-Auth-Token'' \<mapsto> tok2)\<rparr>)"
  assume a: "get_token env (c, tr) = (Inr tok, (c1, tr1)) \<and>
    net env tr1 ?ev1 = Inr r1 \<and> status_code r1 = 401 \<and>
    get_token env (invalidate_token c1, tr1 @ [?ev1]) = (Inr tok2, (c3, tr3))"
  have "priv_token (invalidate_token c1) = JNull" by (simp add: invalidate_token_def)
  from get_token_absent_trace [OF this, of env "tr1 @ [?ev1]"] a
  show t3: "tr3 = tr1 @ [?ev1, identity_request env c1]"
    by (simp add: identity_request_invalidate)
  from a show s: "snd (request env url m d h p (c, tr)) = (c3, tr3 @ [?ev2])"
    by (simp add: request_replay_state(1))
  assume b: "net env tr3 ?ev2 = Inr r2 \<and> 400 \<le> status_code r2 \<and> status_code r2 < 600"
  with a have "fst (request env url m d h p (c, tr)) = decode_response env r2"
    by (simp add: request_replay_state(2))
  with b show "fst (request env url m d h p (c, tr)) = Inl (HTTPError (status_code r2) (body r2))"
    by (simp add: decode_response_def raise_for_status_def)
  from a have "data_sends tr1 = data_sends tr" by (auto dest: get_token_data_sends)
  with s t3 show "data_sends (snd (snd (request env url m d h p (c, tr)))) = data_sends tr + 2"
    by (simp add: data_sends_def identity_request_def)
qed

theorem request_reauthenticates_once_witness:
  "fst (request always_401_env ''http://iad/views'' Post (Some (JArr [JStr ''m''])) None None
          (example_client, [])) = Inl (HTTPError 401 []) \<and>
   data_sends
     (snd (snd (request always_401_env ''http://iad/views'' Post (Some (JArr [JStr ''m'']))
                  None None (example_client, [])))) = 2 \<and>
   identity_exchanges
     (snd (snd (request always_401_env ''http://iad/views'' Post (Some (JArr [JStr ''m'']))
                  None None (example_client, [])))) = 2"
proof -
  let ?env = always_401_env
  let ?d = "Some (JArr [JStr ''m''])"
  let ?kw = "request_kwargs ?env (JStr ''T1'') ?d None None"
  let ?ev1 = "DataSend Post ''http://iad/views'' ?kw"
  let ?ev2 = "DataSend Post ''http://iad/views''
                (?kw\<lparr>kw_headers := (kw_headers ?kw)(''X-Auth-Token'' \<mapsto> JStr ''T2'')\<rparr>)"
  let ?c1 = "example_client\<lparr>priv_token := JStr ''T1'', read_service := example_read_entry\<rparr>"
  let ?c3 = "example_client\<lparr>priv_token := JStr ''T2'', read_service := example_read_entry\<rparr>"
  let ?tr1 = "[identity_request ?env example_client]"
  let ?tr3 = "[identity_request ?env example_client, ?ev1, identity_request ?env example_client]"
  let ?r = "\<lparr>status_code = 401, body = []\<rparr>"
  have g1: "get_token ?env (example_client, []) = (Inr (JStr ''T1''), (?c1, ?tr1))"
    by (rule first_exchange_401)
  have n1: "net ?env ?tr1 ?ev1 = Inr ?r" by (simp add: always_401_env_def)
  have s1: "status_code ?r = 401" by simp
  have g2: "get_token ?env (invalidate_token ?c1, ?tr1 @ [?ev1]) = (Inr (JStr ''T2''), (?c3, ?tr3))"
    using second_exchange_401 [of Post "''http://iad/views''" ?kw] by simp
  have n2: "net ?env ?tr3 ?ev2 = Inr ?r" by (simp add: always_401_env_def)
  have e2: "400 \<le> status_code ?r \<and> status_code ?r < 600" by simp
  note t = request_reauthenticates_once
    [of ?env "''http://iad/views''" Post ?d None None example_client "[]" "JStr ''T1''"
        ?c1 ?tr1 ?r "JStr ''T2''" ?c3 ?tr3 ?r,
     THEN conjunct2, THEN mp, OF conjI [OF g1 conjI [OF n1 conjI [OF s1 g2]]]]
  note u = t [THEN conjunct2, THEN conjunct2, THEN mp, OF conjI [OF n2 e2]]
  from t have "snd (snd (request ?env ''http://iad/views'' Post ?d None None (example_client, [])))
      = ?tr3 @ [?ev2]"
    by simp
  then have "identity_exchanges
      (snd (snd (request ?env ''http://iad/views'' Post ?d None None (example_client, [])))) = 2"
    by (simp add: identity_exchanges_def identity_request_def)
  with u show ?thesis by (simp add: data_sends_def)
qed

text \<open>
  C9, as the code has it. When the last call made by \<open>request\<close> is a data-plane call
  answered with a status outside 400..599: if decoding the body raises \<^verbatim>\<open>ValueError\<close>,
  \<open>request\<close> returns \<^verbatim>\<open>None\<close>; if decoding raises another exception, \<open>request\<close> raises
  it; if the body decodes and the decoded value is formatted for the debug message, the
  decoded value is returned.
\<close>

theorem request_decodes_body:
  "request env url m d h p (c, tr) = (res, (c1, tr0 @ [DataSend m1 u1 kw1])) \<and>
   net env tr0 (DataSend m1 u1 kw1) = Inr resp \<and>
   \<not> (400 \<le> status_code resp \<and> status_code resp < 600) \<longrightarrow>
     (loads env (body resp) = Inl ValueError \<longrightarrow> res = Inr JNull) \<and>
     (\<forall>e. loads env (body resp) = Inl e \<and> e \<noteq> ValueError \<longrightarrow> res = Inl e) \<and>
     (\<forall>j s. loads env (body resp) = Inr j \<and> pformat env j = Inr s \<longrightarrow> res = Inr j)"
proof
  assume a: "request env url m d h p (c, tr) = (res, (c1, tr0 @ [DataSend m1 u1 kw1])) \<and>
   net env tr0 (DataSend m1 u1 kw1) = Inr resp \<and>
   \<not> (400 \<le> status_code resp \<and> status_code resp < 600)"
  obtain g c2 tr1 where g1: "get_token env (c, tr) = (g, (c2, tr1))"
    by (metis prod.exhaust)
  have "res = decode_response env resp"
  proof (cases g)
    case (Inl e)
    with g1 a have "tr1 = tr0 @ [DataSend m1 u1 kw1]" by (simp add: request_def)
    with g1 Inl show ?thesis
      by (auto simp: identity_request_def dest!: get_token_failure_trace)
  next
    case (Inr tok)
    let ?ev1 = "DataSend m url (request_kwargs env tok d h p)"
    show ?thesis
    proof (cases "net env tr1 ?ev1")
      case (Inl e)
      with g1 Inr a show ?thesis by (auto simp: request_def send_def Let_def)
    next
      case r1: (Inr r1)
      show ?thesis
      proof (cases "status_code r1 = 401")
        case False
        with g1 Inr r1 a show ?thesis by (auto simp: request_def send_def Let_def)
      next
        case True
        obtain g' c3 tr3 where
          g2: "get_token env (invalidate_token c2, tr1 @ [?ev1]) = (g', (c3, tr3))"
          by (metis prod.exhaust)
        show ?thesis
        proof (cases g')
          case (Inl e)
          with g1 Inr r1 True g2 a have "tr3 = tr0 @ [DataSend m1 u1 kw1]"
            by (simp add: request_def send_def Let_def)
          with g2 Inl show ?thesis
            by (auto simp: identity_request_def dest!: get_token_failure_trace)
        next
          case (Inr tok2)
          with g1 \<open>g = Inr tok\<close> r1 True g2 a show ?thesis
            by (auto simp: request_def send_def Let_def split: sum.splits)
        qed
      qed
    qed
  qed
  moreover from a have "raise_for_status resp = Inr ()"
    by (auto simp: raise_for_status_def)
  ultimately have r: "res =
      (case loads env (body resp) of
         Inl e \<Rightarrow> if e = ValueError then Inr JNull else Inl e
       | Inr resp_json \<Rightarrow>
           (case pformat env resp_json of
              Inl e \<Rightarrow> if e = ValueError then Inr JNull else Inl e
            | Inr _ \<Rightarrow> Inr resp_json))"
    by (simp add: decode_response_def)
  show "(loads env (body resp) = Inl ValueError \<longrightarrow> res = Inr JNull) \<and>
     (\<forall>e. loads env (body resp) = Inl e \<and> e \<noteq> ValueError \<longrightarrow> res = Inl e) \<and>
     (\<forall>j s. loads env (body resp) = Inr j \<and> pformat env j = Inr s \<longrightarrow> res = Inr j)"
    unfolding r by simp
qed

theorem request_decodes_body_witness:
  "fst (request expiring_token_env ''http://iad/ingest'' Post (Some (JArr [])) None None
          (example_client, [])) = Inr JNull \<and>
   fst (request expiring_token_env ''http://iad/views'' Post (Some (JArr [])) None None
          (example_client, [])) = Inr (JArr []) \<and>
   fst (request expiring_token_env ''http://iad/deep'' Post (Some (JArr [])) None None
          (example_client, [])) = Inl RuntimeError"
proof -
  let ?env = expiring_token_env
  let ?d = "Some (JArr [])"
  let ?kw = "request_kwargs ?env (JStr ''T1'') ?d None None"
  let ?kw2 = "?kw\<lparr>kw_headers := (kw_headers ?kw)(''X-Auth-Token'' \<mapsto> JStr ''T2'')\<rparr>"
  let ?c3 = "example_client\<lparr>priv_token := JStr ''T2'', read_service := example_read_entry\<rparr>"
  have ok: "\<And>b. \<not> (400 \<le> status_code \<lparr>status_code = 200, body = b\<rparr> \<and>
                    status_code \<lparr>status_code = 200, body = b\<rparr> < 600)"
    by simp
  have ingest: "fst (request ?env ''http://iad/ingest'' Post ?d None None (example_client, []))
      = Inr JNull"
  proof -
    let ?u = "''http://iad/ingest''"
    let ?tr3 = "[identity_request ?env example_client, DataSend Post ?u ?kw,
                 identity_request ?env example_client]"
    let ?resp = "\<lparr>status_code = 200, body = []\<rparr>"
    have n2: "net ?env ?tr3 (DataSend Post ?u ?kw2) = Inr ?resp"
      by (simp add: expiring_token_env_def request_kwargs_def)
    from expiring_replay [OF n2]
    have s: "request ?env ?u Post ?d None None (example_client, []) =
        (fst (request ?env ?u Post ?d None None (example_client, [])),
         (?c3, ?tr3 @ [DataSend Post ?u ?kw2]))"
      by simp
    have l: "loads ?env (body ?resp) = Inl ValueError"
      by (simp add: expiring_token_env_def example_loads_def)
    from request_decodes_body
      [of ?env ?u Post ?d None None example_client "[]"
          "fst (request ?env ?u Post ?d None None (example_client, []))" ?c3 ?tr3
          Post ?u ?kw2 ?resp,
       THEN mp, OF conjI [OF s conjI [OF n2 ok]], THEN conjunct1, THEN mp, OF l]
    show ?thesis .
  qed
  have views: "fst (request ?env ''http://iad/views'' Post ?d None None (example_client, []))
      = Inr (JArr [])"
  proof -
    let ?u = "''http://iad/views''"
    let ?tr3 = "[identity_request ?env example_client, DataSend Post ?u ?kw,
                 identity_request ?env example_client]"
    let ?resp = "\<lparr>status_code = 200, body = ''[]''\<rparr>"
    have n2: "net ?env ?tr3 (DataSend Post ?u ?kw2) = Inr ?resp"
      by (simp add: expiring_token_env_def request_kwargs_def)
    from expiring_replay [OF n2]
    have s: "request ?env ?u Post ?d None None (example_client, []) =
        (fst (request ?env ?u Post ?d None None (example_client, [])),
         (?c3, ?tr3 @ [DataSend Post ?u ?kw2]))"
      by simp
    have l: "loads ?env (body ?resp) = Inr (JArr []) \<and> pformat ?env (JArr []) = Inr ''value''"
      by (simp add: expiring_token_env_def example_loads_def)
    from request_decodes_body
      [of ?env ?u Post ?d None None example_client "[]"
          "fst (request ?env ?u Post ?d None None (example_client, []))" ?c3 ?tr3
          Post ?u ?kw2 ?resp,
       THEN mp, OF conjI [OF s conjI [OF n2 ok]], THEN conjunct2, THEN conjunct2,
       THEN spec, THEN spec, THEN mp, OF l]
    show ?thesis .
  qed
  have deep: "fst (request ?env ''http://iad/deep'' Post ?d None None (example_client, []))
      = Inl RuntimeError"
  proof -
    let ?u = "''http://iad/deep''"
    let ?tr3 = "[identity_request ?env example_client, DataSend Post ?u ?kw,
                 identity_request ?env example_client]"
    let ?resp = "\<lparr>status_code = 200, body = replicate 1001 (CHR ''['')\<rparr>"
    have n2: "net ?env ?tr3 (DataSend Post ?u ?kw2) = Inr ?resp"
      by (simp add: expiring_token_env_def request_kwargs_def)
    from expiring_replay [OF n2]
    have s: "request ?env ?u Post ?d None None (example_client, []) =
        (fst (request ?env ?u Post ?d None None (example_client, [])),
         (?c3, ?tr3 @ [DataSend Post ?u ?kw2]))"
      by simp
    have l: "loads ?env (body ?resp) = Inl RuntimeError \<and> RuntimeError \<noteq> ValueError"
      by (simp add: expiring_token_env_def example_loads_def)
    from request_decodes_body
      [of ?env ?u Post ?d None None example_client "[]"
          "fst (request ?env ?u Post ?d None None (example_client, []))" ?c3 ?tr3
          Post ?u ?kw2 ?resp,
       THEN mp, OF conjI [OF s conjI [OF n2 ok]], THEN conjunct2, THEN conjunct1,
       THEN spec, THEN mp, OF l]
    show ?thesis .
  qed
  from ingest views deep show ?thesis by simp
qed

text \<open>
  C9 as stated fails. The second server answers the replayed call on
  \<^verbatim>\<open>http://iad/deep\<close> with status 200 and a body of 1001 opening brackets, which is not
  JSON; decoding it raises \<^verbatim>\<open>RuntimeError\<close>, and so does \<open>request\<close>.
\<close>

theorem request_deep_body_counterexample:
  "net expiring_token_env
     [identity_request expiring_token_env example_client,
      DataSend Get ''http://iad/deep''
        (request_kwargs expiring_token_env (JStr ''T1'') None None None),
      identity_request expiring_token_env example_client]
     (DataSend Get ''http://iad/deep''
        ((request_kwargs expiring_token_env (JStr ''T1'') None None None)
           \<lparr>kw_headers :=
              (kw_headers (request_kwargs expiring_token_env (JStr ''T1'') None None None))
              (''X-Auth-Token'' \<mapsto> JStr ''T2'')\<rparr>))
     = Inr \<lparr>status_code = 200, body = replicate 1001 (CHR ''['')\<rparr> \<and>
   loads expiring_token_env (replicate 1001 (CHR ''['')) = Inl RuntimeError \<and>
   fst (request expiring_token_env ''http://iad/deep'' Get None None None (example_client, []))
     = Inl RuntimeError"
proof -
  let ?env = expiring_token_env
  let ?kw = "request_kwargs ?env (JStr ''T1'') None None None"
  let ?kw2 = "?kw\<lparr>kw_headers := (kw_headers ?kw)(''X-Auth-Token'' \<mapsto> JStr ''T2'')\<rparr>"
  let ?tr3 = "[identity_request ?env example_client, DataSend Get ''http://iad/deep'' ?kw,
               identity_request ?env example_client]"
  let ?resp = "\<lparr>status_code = 200, body = replicate 1001 (CHR ''['')\<rparr>"
  have n2: "net ?env ?tr3 (DataSend Get ''http://iad/deep'' ?kw2) = Inr ?resp"
    by (simp add: expiring_token_env_def request_kwargs_def)
  have l: "loads ?env (replicate 1001 (CHR ''['')) = Inl RuntimeError"
    by (simp add: expiring_token_env_def example_loads_def)
  then have "decode_response ?env ?resp = Inl RuntimeError"
    by (simp add: decode_response_def raise_for_status_def)
  with expiring_replay [OF n2]
  have "fst (request ?env ''http://iad/deep'' Get None None None (example_client, []))
      = Inl RuntimeError"
    by simp
  with n2 l show ?thesis by simp
qed

section \<open>Datapoint: time to live\<close>

text \<open>
  C8. A datapoint constructed without a TTL has \<open>ttlInSeconds = 15552000\<close>; one constructed
  with a negative \<open>ttl_seconds\<close> has \<open>ttlInSeconds = 0\<close>.
\<close>

theorem Datapoint_default_and_negative_ttl:
  "ttlInSeconds (Datapoint_init now name val ct None u) = 15552000 \<and>
   (t < 0 \<longrightarrow> ttlInSeconds (Datapoint_init now name val ct (Some t) u) = 0)"
  by (simp add: Datapoint_init_def Let_def)

theorem Datapoint_default_and_negative_ttl_witness:
  "(- 5 :: int) < 0 \<and>
   ttlInSeconds (Datapoint_init 1442262994835 ''m'' (JNum 55) None None None) = 15552000 \<and>
   ttlInSeconds (Datapoint_init 1442262994835 ''m'' (JNum 55) None (Some (- 5)) None) = 0"
  using Datapoint_default_and_negative_ttl
    [of 1442262994835 "''m''" "JNum 55" None None "- 5"]
  by simp

text \<open>
  C10. An explicit \<open>ttl_seconds\<close> of 0 is falsy, so it is replaced by the default: the
  datapoint gets \<open>ttlInSeconds = 15552000\<close>.
\<close>

theorem Datapoint_zero_ttl_is_default:
  "ttlInSeconds (Datapoint_init now name val ct (Some 0) u) = 15552000"
  by (simp add: Datapoint_init_def Let_def)

end
